theory Spec2Isabelle
  imports Main "HOL-Library.Sublist"
begin

section \<open>JSON values and HTTP responses\<close>

text \<open>
  The handlers answer with \<^verbatim>\<open>c.json(obj, status)\<close>. A JSON object is kept as the list of
  its fields in the order the source writes them. A field whose JavaScript value is
  \<^verbatim>\<open>null\<close> is present with value \<open>JNull\<close>.
\<close>

datatype json = JNull | JBool bool | JNum int | JStr string | JObj "(string \<times> json) list"

record response =
  status :: nat
  body :: json

definition c_json :: "json \<Rightarrow> nat \<Rightarrow> response" where
  "c_json obj st = \<lparr>status = st, body = obj\<rparr>"

definition error_json :: "string \<Rightarrow> json" where
  "error_json msg = JObj [(''error'', JStr msg)]"

definition success_json :: json where
  "success_json = JObj [(''success'', JBool True)]"

text \<open>The members of an object, and whether a field name occurs in a value at any depth.\<close>

fun members :: "json \<Rightarrow> (string \<times> json) list" where
  "members (JObj fs) = fs"
| "members _ = []"

fun has_key :: "string \<Rightarrow> json \<Rightarrow> bool" where
  "has_key k (JObj fs) = list_ex (\<lambda>p. fst p = k \<or> has_key k (snd p)) fs"
| "has_key k _ = False"

definition json_opt :: "string option \<Rightarrow> json" where
  "json_opt v = (case v of None \<Rightarrow> JNull | Some s \<Rightarrow> JStr s)"

section \<open>JavaScript truthiness and trimming\<close>

text \<open>
  \<^verbatim>\<open>!x\<close> on an optional string: \<^verbatim>\<open>undefined\<close>, \<^verbatim>\<open>null\<close> and the empty string are falsy.
\<close>

fun falsy :: "string option \<Rightarrow> bool" where
  "falsy None = True"
| "falsy (Some s) = (s = [])"

fun truthy :: "string option \<Rightarrow> bool" where
  "truthy None = False"
| "truthy (Some s) = (s \<noteq> [])"

text \<open>\<^verbatim>\<open>x || d\<close> on an optional string.\<close>

fun or_else :: "string option \<Rightarrow> string \<Rightarrow> string" where
  "or_else None d = d"
| "or_else (Some s) d = (if s = [] then d else s)"

text \<open>
  \<^verbatim>\<open>String.prototype.trim\<close>. Strings are modelled over code units below 256; the
  white space and line terminators of ECMAScript in that range are TAB, LF, VT, FF, CR,
  SPACE and NBSP.
\<close>

definition is_ws :: "char \<Rightarrow> bool" where
  "is_ws c = (of_char c \<in> {9, 10, 11, 12, 13, 32, 160 :: nat})"

definition trim :: "string \<Rightarrow> string" where
  "trim s = rev (dropWhile is_ws (rev (dropWhile is_ws s)))"

section \<open>Path validation (utils/crypto: validatePath)\<close>

text \<open>The server's function. The character class is \<^verbatim>\<open>[a-zA-Z0-9-_]\<close>.\<close>

definition path_char :: "char \<Rightarrow> bool" where
  "path_char c =
     (let n = (of_char c :: nat) in
        (97 \<le> n \<and> n \<le> 122) \<or> (65 \<le> n \<and> n \<le> 90) \<or> (48 \<le> n \<and> n \<le> 57)
        \<or> n = 45 \<or> n = 95)"

definition validatePath :: "string \<Rightarrow> nat \<Rightarrow> nat \<Rightarrow> bool" where
  "validatePath path minLength maxLength =
     (if path = [] \<or> path = ''admin'' \<or> path = ''api'' \<or> path = ''static'' then False
      else if length path < minLength \<or> length path > maxLength then False
      else list_all path_char path)"

text \<open>
  Modelled from the spec: the edge handlers import \<^verbatim>\<open>validatePath\<close> from their own
  utils/crypto, which is not among the sources. The specification gives the path syntax:
  a path matches \<^verbatim>\<open>^[a-zA-Z0-9_-]+$\<close>, its length is within the configured bounds, and it
  is none of the reserved values \<^verbatim>\<open>admin\<close>, \<^verbatim>\<open>api\<close> and \<^verbatim>\<open>static\<close>.
\<close>

definition worker_validatePath :: "string \<Rightarrow> nat \<Rightarrow> nat \<Rightarrow> bool" where
  "worker_validatePath path minLength maxLength =
     (path \<noteq> [] \<and> list_all path_char path
      \<and> minLength \<le> length path \<and> length path \<le> maxLength
      \<and> path \<noteq> ''admin'' \<and> path \<noteq> ''api'' \<and> path \<noteq> ''static'')"

section \<open>The note table\<close>

text \<open>
  A row of table \<^verbatim>\<open>notes\<close>; column \<^verbatim>\<open>path\<close> is the key of the table and is the key of
  the map. Timestamps are the strings the database produces for
  \<^verbatim>\<open>CURRENT_TIMESTAMP\<close>. Column \<^verbatim>\<open>is_locked\<close> holds 0 or 1. The database is taken to be
  reachable: the one failure of a statement that is modelled is a constraint violation.
\<close>

record Note =
  content :: string
  is_locked :: bool
  lock_type :: "string option"
  password_hash :: "string option"
  created_at :: string
  updated_at :: string
  view_count :: int

type_synonym notes_table = "string \<rightharpoonup> Note"

datatype exn = ConstraintError | KVError

text \<open>
  The CHECK constraint on column \<^verbatim>\<open>lock_type\<close>. A constraint is violated only when
  its expression is false; NULL passes. The server's table (adapters/database.ts) has
  \<^verbatim>\<open>CHECK(lock_type IN ('read', 'write'))\<close>. The edge schema (schema.sql) has
  \<^verbatim>\<open>CHECK(lock_type IN ('read', 'write', NULL))\<close>, where a value outside the list
  compares to NULL and so passes as well.
\<close>

fun server_check :: "string option \<Rightarrow> bool" where
  "server_check None = True"
| "server_check (Some t) = (t = ''read'' \<or> t = ''write'')"

definition worker_check :: "string option \<Rightarrow> bool" where
  "worker_check t = True"

text \<open>\<^verbatim>\<open>INSERT INTO notes (path, content) VALUES (?, ?)\<close>: the other columns take their defaults.\<close>

definition new_row :: "string \<Rightarrow> string \<Rightarrow> Note" where
  "new_row now c =
     \<lparr>content = c, is_locked = False, lock_type = None, password_hash = None,
      created_at = now, updated_at = now, view_count = 0\<rparr>"

definition sql_insert :: "string \<Rightarrow> notes_table \<Rightarrow> string \<Rightarrow> string \<Rightarrow> exn + notes_table" where
  "sql_insert now db path c =
     (case db path of
        Some _ \<Rightarrow> Inl ConstraintError
      | None \<Rightarrow> Inr (db(path \<mapsto> new_row now c)))"

text \<open>
  \<^verbatim>\<open>INSERT ... (path, content, is_locked, lock_type, password_hash) VALUES (?, ?, ?, ?, ?)\<close>,
  and its \<^verbatim>\<open>INSERT OR REPLACE\<close> form, which first removes the row with the same path.
\<close>

definition locked_row :: "string \<Rightarrow> string \<Rightarrow> bool \<Rightarrow> string option \<Rightarrow> string option \<Rightarrow> Note" where
  "locked_row now c l t h =
     \<lparr>content = c, is_locked = l, lock_type = t, password_hash = h,
      created_at = now, updated_at = now, view_count = 0\<rparr>"

definition sql_insert_locked ::
  "(string option \<Rightarrow> bool) \<Rightarrow> string \<Rightarrow> notes_table \<Rightarrow> string \<Rightarrow> string \<Rightarrow> bool \<Rightarrow> string option \<Rightarrow> string option \<Rightarrow> exn + notes_table" where
  "sql_insert_locked chk now db path c l t h =
     (case db path of
        Some _ \<Rightarrow> Inl ConstraintError
      | None \<Rightarrow> if chk t then Inr (db(path \<mapsto> locked_row now c l t h))
                else Inl ConstraintError)"

definition sql_insert_or_replace ::
  "(string option \<Rightarrow> bool) \<Rightarrow> string \<Rightarrow> notes_table \<Rightarrow> string \<Rightarrow> string \<Rightarrow> bool \<Rightarrow> string option \<Rightarrow> string option \<Rightarrow> exn + notes_table" where
  "sql_insert_or_replace chk now db path c l t h =
     (if chk t then Inr (db(path \<mapsto> locked_row now c l t h))
      else Inl ConstraintError)"

text \<open>
  \<^verbatim>\<open>UPDATE notes SET ... WHERE path = ?\<close>: the assignment is applied to the row of the
  path when there is one; the statement fails, changing nothing, when the new row
  violates the CHECK constraint.
\<close>

definition sql_update :: "(string option \<Rightarrow> bool) \<Rightarrow> notes_table \<Rightarrow> string \<Rightarrow> (Note \<Rightarrow> Note) \<Rightarrow> exn + notes_table" where
  "sql_update chk db path f =
     (case db path of
        None \<Rightarrow> Inr db
      | Some n \<Rightarrow> if chk (lock_type (f n)) then Inr (db(path \<mapsto> f n))
                  else Inl ConstraintError)"

definition sql_delete :: "notes_table \<Rightarrow> string \<Rightarrow> notes_table" where
  "sql_delete db path = db(path := None)"

text \<open>The assignments of the UPDATE statements of the handlers.\<close>

definition set_view_count :: "Note \<Rightarrow> Note" where
  "set_view_count n = n\<lparr>view_count := view_count n + 1\<rparr>"

definition set_content :: "string \<Rightarrow> Note \<Rightarrow> Note" where
  "set_content c n = n\<lparr>content := c\<rparr>"

definition set_updated_at :: "string \<Rightarrow> Note \<Rightarrow> Note" where
  "set_updated_at now n = n\<lparr>updated_at := now\<rparr>"

definition set_lock :: "string option \<Rightarrow> string option \<Rightarrow> Note \<Rightarrow> Note" where
  "set_lock t h n = n\<lparr>is_locked := True, lock_type := t, password_hash := h\<rparr>"

definition clear_lock :: "Note \<Rightarrow> Note" where
  "clear_lock n = n\<lparr>is_locked := False, lock_type := None, password_hash := None\<rparr>"

section \<open>The cache\<close>

text \<open>
  The key-value backend (Workers KV on the edge, node-cache on the server): each entry is
  a stored value with the TTL it was written with. The stored string is the JSON text of
  a value; it is kept as that value, \<^verbatim>\<open>JSON.parse\<close> of \<^verbatim>\<open>JSON.stringify\<close> being the
  identity on the objects the handlers store. A backend that is unavailable throws on
  every call. Expiry is the backend's business and is not modelled: an entry stays until
  it is deleted or overwritten.
\<close>

record kv =
  entries :: "string \<rightharpoonup> (json \<times> int)"
  unavailable :: bool

definition kv_get :: "kv \<Rightarrow> string \<Rightarrow> exn + json option" where
  "kv_get c k = (if unavailable c then Inl KVError else Inr (map_option fst (entries c k)))"

definition kv_put :: "kv \<Rightarrow> string \<Rightarrow> json \<Rightarrow> int \<Rightarrow> exn + kv" where
  "kv_put c k v ttl =
     (if unavailable c then Inl KVError else Inr (c\<lparr>entries := (entries c)(k \<mapsto> (v, ttl))\<rparr>))"

definition kv_delete :: "kv \<Rightarrow> string \<Rightarrow> exn + kv" where
  "kv_delete c k =
     (if unavailable c then Inl KVError else Inr (c\<lparr>entries := (entries c)(k := None)\<rparr>))"

text \<open>
  server/src/adapters/cache.ts, class KVStore: every method wraps the backend call in
  \<^verbatim>\<open>try/catch\<close>; \<^verbatim>\<open>put\<close> uses \<^verbatim>\<open>options?.expirationTtl || 3600\<close>.
\<close>

definition KVStore_get :: "kv \<Rightarrow> string \<Rightarrow> json option" where
  "KVStore_get c k = (case kv_get c k of Inl _ \<Rightarrow> None | Inr v \<Rightarrow> v)"

definition KVStore_put :: "kv \<Rightarrow> string \<Rightarrow> json \<Rightarrow> int \<Rightarrow> kv" where
  "KVStore_put c k v expirationTtl =
     (let ttl = (if expirationTtl = 0 then 3600 else expirationTtl)
      in case kv_put c k v ttl of Inl _ \<Rightarrow> c | Inr c' \<Rightarrow> c')"

definition KVStore_delete :: "kv \<Rightarrow> string \<Rightarrow> kv" where
  "KVStore_delete c k = (case kv_delete c k of Inl _ \<Rightarrow> c | Inr c' \<Rightarrow> c')"

definition cache_key :: "string \<Rightarrow> string" where
  "cache_key path = ''note:'' @ path"

text \<open>\<^verbatim>\<open>Math.min(86400, Math.max(300, result.view_count * 180))\<close>\<close>

definition cache_ttl :: "int \<Rightarrow> int" where
  "cache_ttl vc = min 86400 (max 300 (vc * 180))"

section \<open>Environment and system state\<close>

text \<open>
  What a request handler reads from its context. \<open>now\<close> is the database's
  \<^verbatim>\<open>CURRENT_TIMESTAMP\<close> during the request. \<^verbatim>\<open>hashPassword\<close> and \<^verbatim>\<open>verifyPassword\<close> are
  the opaque hash/verify pair (PBKDF2 with a fresh salt), and \<^verbatim>\<open>sanitizeHtml\<close> is the
  regular-expression filter of utils/crypto; the handlers are modelled for any such
  functions. The two length bounds are the parsed \<^verbatim>\<open>PATH_MIN_LENGTH\<close> and \<^verbatim>\<open>PATH_MAX_LENGTH\<close>.
\<close>

record env =
  now :: string
  hashPassword :: "string \<Rightarrow> string"
  verifyPassword :: "string \<Rightarrow> string \<Rightarrow> bool"
  sanitizeHtml :: "string \<Rightarrow> string"
  PATH_MIN_LENGTH :: nat
  PATH_MAX_LENGTH :: nat

record sys =
  DB :: notes_table
  CACHE :: kv

text \<open>A row as the JSON object the database driver returns, columns in schema order.\<close>

definition row_json :: "string \<Rightarrow> Note \<Rightarrow> json" where
  "row_json path n =
     JObj [(''path'', JStr path),
           (''content'', JStr (content n)),
           (''is_locked'', JNum (if is_locked n then 1 else 0)),
           (''lock_type'', json_opt (lock_type n)),
           (''password_hash'', json_opt (password_hash n)),
           (''created_at'', JStr (created_at n)),
           (''updated_at'', JStr (updated_at n)),
           (''view_count'', JNum (view_count n))]"

definition invalid_path :: response where
  "invalid_path = c_json (error_json ''Invalid path'') 400"

definition database_error :: response where
  "database_error = c_json (error_json ''Database error'') 500"

section \<open>Edge runtime: src/routes/api.ts\<close>

text \<open>
  A promise handed to \<^verbatim>\<open>c.executionCtx.waitUntil\<close> runs to completion without the handler
  awaiting it; its rejection reaches nobody. Its effect is taken to land before the next
  request.
\<close>

definition waitUntil :: "'a \<Rightarrow> exn + 'a \<Rightarrow> 'a" where
  "waitUntil old r = (case r of Inl _ \<Rightarrow> old | Inr new \<Rightarrow> new)"

text \<open>
  The tail shared by the mutating handlers: the awaited statement, then
  \<^verbatim>\<open>await c.env.CACHE.delete(`note:${path}`)\<close>, then \<^verbatim>\<open>{ success: true }\<close>, all inside the
  handler's \<^verbatim>\<open>try\<close>, whose \<^verbatim>\<open>catch\<close> answers 500.
\<close>

definition worker_commit :: "sys \<Rightarrow> string \<Rightarrow> exn + notes_table \<Rightarrow> response \<times> sys" where
  "worker_commit s path r =
     (case r of
        Inl _ \<Rightarrow> (database_error, s)
      | Inr db' \<Rightarrow>
          (case kv_delete (CACHE s) (cache_key path) of
             Inl _ \<Rightarrow> (database_error, s\<lparr>DB := db'\<rparr>)
           | Inr c' \<Rightarrow> (c_json success_json 200, \<lparr>DB = db', CACHE = c'\<rparr>)))"

definition read_lock_json :: json where
  "read_lock_json =
     JObj [(''exists'', JBool True), (''is_locked'', JBool True),
           (''lock_type'', JStr ''read''), (''requires_password'', JBool True)]"

definition worker_get_note :: "env \<Rightarrow> sys \<Rightarrow> string \<Rightarrow> response \<times> sys" where
  "worker_get_note e s path =
     (if \<not> worker_validatePath path (PATH_MIN_LENGTH e) (PATH_MAX_LENGTH e) then (invalid_path, s)
      else case kv_get (CACHE s) (cache_key path) of
        Inl _ \<Rightarrow> (database_error, s)
      | Inr (Some cached) \<Rightarrow>
          (case sql_update worker_check (DB s) path set_view_count of
             Inl _ \<Rightarrow> (database_error, s)
           | Inr db' \<Rightarrow> (c_json cached 200, s\<lparr>DB := db'\<rparr>))
      | Inr None \<Rightarrow>
          (case DB s path of
             None \<Rightarrow> (c_json (JObj [(''exists'', JBool False)]) 200, s)
           | Some result \<Rightarrow>
               (let s1 = s\<lparr>DB := waitUntil (DB s)
                                  (sql_update worker_check (DB s) path set_view_count)\<rparr>;
                    s2 = (if view_count result \<ge> 2
                          then s1\<lparr>CACHE := waitUntil (CACHE s1)
                                    (kv_put (CACHE s1) (cache_key path) (row_json path result)
                                       (cache_ttl (view_count result)))\<rparr>
                          else s1)
                in if is_locked result \<and> lock_type result = Some ''read''
                   then (c_json read_lock_json 200, s2)
                   else (c_json (row_json path result) 200, s2))))"

text \<open>The write-lock check of the save handler: the response of its early return, if any.\<close>

definition worker_write_lock :: "env \<Rightarrow> Note \<Rightarrow> string option \<Rightarrow> response option" where
  "worker_write_lock e existing body_password =
     (if is_locked existing \<and> lock_type existing = Some ''write''
         \<and> truthy (password_hash existing)
      then (if falsy body_password
            then Some (c_json (error_json ''Password required for editing'') 403)
            else if verifyPassword e (or_else body_password []) (or_else (password_hash existing) [])
            then None
            else Some (c_json (error_json ''Invalid password'') 403))
      else None)"

definition worker_save_note ::
  "env \<Rightarrow> sys \<Rightarrow> string \<Rightarrow> string option \<Rightarrow> string option \<Rightarrow> response \<times> sys" where
  "worker_save_note e s path body_content body_password =
     (if \<not> worker_validatePath path (PATH_MIN_LENGTH e) (PATH_MAX_LENGTH e) then (invalid_path, s)
      else let c = sanitizeHtml e (or_else body_content [])
      in if trim c = [] then (c_json (error_json ''Content cannot be empty'') 400, s)
         else case DB s path of
           Some existing \<Rightarrow>
             (case worker_write_lock e existing body_password of
                Some rejected \<Rightarrow> (rejected, s)
              | None \<Rightarrow>
                  worker_commit s path
                    (sql_update worker_check (DB s) path
                       (\<lambda>n. set_updated_at (now e) (set_content c n))))
         | None \<Rightarrow> worker_commit s path (sql_insert (now e) (DB s) path c))"

definition worker_unlock :: "env \<Rightarrow> sys \<Rightarrow> string \<Rightarrow> string \<Rightarrow> response \<times> sys" where
  "worker_unlock e s path body_password =
     (case DB s path of
        None \<Rightarrow> (c_json (error_json ''Note not found'') 404, s)
      | Some n \<Rightarrow>
          if is_locked n \<and> truthy (password_hash n)
          then (if verifyPassword e body_password (or_else (password_hash n) [])
                then (case kv_delete (CACHE s) (cache_key path) of
                        Inl _ \<Rightarrow> (database_error, s)
                      | Inr c' \<Rightarrow>
                          (c_json (JObj [(''success'', JBool True), (''note'', row_json path n)]) 200,
                           s\<lparr>CACHE := c'\<rparr>))
                else (c_json (error_json ''Invalid password'') 403, s))
          else (c_json (error_json ''Note is not locked'') 400, s))"

definition worker_lock ::
  "env \<Rightarrow> sys \<Rightarrow> string \<Rightarrow> string option \<Rightarrow> string option \<Rightarrow> response \<times> sys" where
  "worker_lock e s path body_password body_lock_type =
     (if falsy body_password \<or> falsy body_lock_type
      then (c_json (error_json ''Password and lock_type required'') 400, s)
      else if body_lock_type \<noteq> Some ''read'' \<and> body_lock_type \<noteq> Some ''write''
      then (c_json (error_json ''Invalid lock_type'') 400, s)
      else case DB s path of
        None \<Rightarrow> (c_json (error_json ''Note not found'') 404, s)
      | Some n \<Rightarrow>
          worker_commit s path
            (sql_update worker_check (DB s) path
               (set_lock body_lock_type (Some (hashPassword e (or_else body_password []))))))"

definition worker_remove_lock :: "env \<Rightarrow> sys \<Rightarrow> string \<Rightarrow> string \<Rightarrow> response \<times> sys" where
  "worker_remove_lock e s path body_password =
     (case DB s path of
        None \<Rightarrow> (c_json (error_json ''Note not found'') 404, s)
      | Some n \<Rightarrow>
          if is_locked n \<and> truthy (password_hash n)
          then (if verifyPassword e body_password (or_else (password_hash n) [])
                then worker_commit s path (sql_update worker_check (DB s) path clear_lock)
                else (c_json (error_json ''Invalid password'') 403, s))
          else (c_json (error_json ''Note is not locked'') 400, s))"

section \<open>Edge runtime: admin routes\<close>

text \<open>
  The handlers behind \<^verbatim>\<open>requireAuth\<close>, for an authenticated administrator. The rows they
  append to \<^verbatim>\<open>admin_logs\<close> are not part of the state kept here.
\<close>

definition worker_admin_delete :: "sys \<Rightarrow> string \<Rightarrow> response \<times> sys" where
  "worker_admin_delete s path = worker_commit s path (Inr (sql_delete (DB s) path))"

definition worker_admin_put :: "env \<Rightarrow> sys \<Rightarrow> string \<Rightarrow> string \<Rightarrow> response \<times> sys" where
  "worker_admin_put e s path body_content =
     worker_commit s path
       (sql_update worker_check (DB s) path
          (\<lambda>n. set_updated_at (now e) (set_content body_content n)))"

text \<open>An element of \<^verbatim>\<open>ImportRequest.notes\<close>.\<close>

record import_note =
  item_path :: string
  item_content :: string
  item_is_locked :: "bool option"
  item_lock_type :: "string option"
  item_password :: "string option"

text \<open>
  One round of the import loop, on the table and the two counters: the body of the
  \<^verbatim>\<open>try\<close>, and the \<^verbatim>\<open>catch\<close> that counts a failure.
\<close>

definition worker_import_note ::
  "env \<Rightarrow> notes_table \<times> nat \<times> nat \<Rightarrow> import_note \<Rightarrow> notes_table \<times> nat \<times> nat" where
  "worker_import_note e st item =
     (case st of (db, imported, failed) \<Rightarrow>
        (let passwordHash =
               (if truthy (item_password item)
                then Some (hashPassword e (or_else (item_password item) []))
                else None)
         in case sql_insert_or_replace worker_check (now e) db (item_path item) (item_content item)
                   (item_is_locked item = Some True)
                   (if truthy (item_lock_type item) then item_lock_type item else None)
                   passwordHash of
              Inl _ \<Rightarrow> (db, imported, failed + 1)
            | Inr db' \<Rightarrow> (db', imported + 1, failed)))"

definition worker_admin_import :: "env \<Rightarrow> sys \<Rightarrow> import_note list option \<Rightarrow> response \<times> sys" where
  "worker_admin_import e s body_notes =
     (case body_notes of
        None \<Rightarrow> (c_json (error_json ''Invalid import data'') 400, s)
      | Some ns \<Rightarrow>
          (case foldl (worker_import_note e) (DB s, 0, 0) ns of
             (db', imported, failed) \<Rightarrow>
               (c_json (JObj [(''success'', JBool True), (''imported'', JNum (int imported)),
                              (''failed'', JNum (int failed))]) 200,
                s\<lparr>DB := db'\<rparr>)))"

section \<open>Server runtime: adapters/database.ts\<close>

text \<open>
  The trigger \<^verbatim>\<open>update_notes_timestamp\<close>: after an UPDATE of a row, its \<^verbatim>\<open>updated_at\<close>
  becomes \<^verbatim>\<open>CURRENT_TIMESTAMP\<close>.
\<close>

definition update_notes_timestamp :: "string \<Rightarrow> notes_table \<Rightarrow> string \<Rightarrow> notes_table" where
  "update_notes_timestamp ts db path =
     (case db path of None \<Rightarrow> db | Some n \<Rightarrow> db(path \<mapsto> set_updated_at ts n))"

definition server_update ::
  "string \<Rightarrow> notes_table \<Rightarrow> string \<Rightarrow> (Note \<Rightarrow> Note) \<Rightarrow> exn + notes_table" where
  "server_update ts db path f =
     (case sql_update server_check db path f of
        Inl x \<Rightarrow> Inl x
      | Inr db' \<Rightarrow> Inr (update_notes_timestamp ts db' path))"

text \<open>
  \<^verbatim>\<open>D1PreparedStatement.run\<close> catches the error of a failed statement and returns
  \<^verbatim>\<open>success: false\<close>; no handler looks at that field.
\<close>

definition run :: "notes_table \<Rightarrow> exn + notes_table \<Rightarrow> notes_table" where
  "run db r = (case r of Inl _ \<Rightarrow> db | Inr db' \<Rightarrow> db')"

section \<open>Server runtime: server/src/routes/api.ts\<close>

definition NoteResponse :: "Note \<Rightarrow> json" where
  "NoteResponse result =
     JObj [(''exists'', JBool True),
           (''content'', JStr (content result)),
           (''is_locked'', JNum (if is_locked result then 1 else 0)),
           (''lock_type'', json_opt (lock_type result)),
           (''view_count'', JNum (view_count result)),
           (''created_at'', JStr (created_at result)),
           (''updated_at'', JStr (updated_at result))]"

definition server_get_note :: "env \<Rightarrow> sys \<Rightarrow> string \<Rightarrow> response \<times> sys" where
  "server_get_note e s path =
     (if \<not> validatePath path (PATH_MIN_LENGTH e) (PATH_MAX_LENGTH e) then (invalid_path, s)
      else case KVStore_get (CACHE s) (cache_key path) of
        Some cached \<Rightarrow>
          (c_json cached 200,
           s\<lparr>DB := run (DB s) (server_update (now e) (DB s) path set_view_count)\<rparr>)
      | None \<Rightarrow>
          (case DB s path of
             None \<Rightarrow> (c_json (JObj [(''exists'', JBool False)]) 200, s)
           | Some result \<Rightarrow>
               if is_locked result \<and> lock_type result = Some ''read''
               then (c_json (JObj [(''exists'', JBool True), (''requires_password'', JBool True),
                                   (''lock_type'', JStr ''read'')]) 200, s)
               else (let s1 = s\<lparr>DB := run (DB s)
                                       (server_update (now e) (DB s) path set_view_count)\<rparr>;
                         s2 = (if view_count result \<ge> 2
                               then s1\<lparr>CACHE := KVStore_put (CACHE s1) (cache_key path)
                                         (NoteResponse result) (cache_ttl (view_count result))\<rparr>
                               else s1)
                     in (c_json (NoteResponse result) 200, s2))))"

text \<open>The lock check of the save handler: the response of its early return, if any.\<close>

definition server_lock_check :: "env \<Rightarrow> Note \<Rightarrow> string option \<Rightarrow> response option" where
  "server_lock_check e existing body_password =
     (if is_locked existing \<and> truthy (password_hash existing)
      then (if falsy body_password
            then Some (c_json (error_json ''Password required'') 403)
            else if verifyPassword e (or_else body_password []) (or_else (password_hash existing) [])
            then None
            else Some (c_json (error_json ''Invalid password'') 403))
      else None)"

definition server_save_note ::
  "env \<Rightarrow> sys \<Rightarrow> string \<Rightarrow> string option \<Rightarrow> string option \<Rightarrow> response \<times> sys" where
  "server_save_note e s path body_content body_password =
     (if \<not> validatePath path (PATH_MIN_LENGTH e) (PATH_MAX_LENGTH e) then (invalid_path, s)
      else let c = sanitizeHtml e (or_else body_content [])
      in case DB s path of
           Some existing \<Rightarrow>
             (case server_lock_check e existing body_password of
                Some rejected \<Rightarrow> (rejected, s)
              | None \<Rightarrow>
                  (c_json success_json 200,
                   \<lparr>DB = run (DB s) (server_update (now e) (DB s) path
                                      (\<lambda>n. set_updated_at (now e) (set_content c n))),
                    CACHE = KVStore_delete (CACHE s) (cache_key path)\<rparr>))
         | None \<Rightarrow>
             (c_json success_json 200, s\<lparr>DB := run (DB s) (sql_insert (now e) (DB s) path c)\<rparr>))"

definition server_unlock :: "env \<Rightarrow> sys \<Rightarrow> string \<Rightarrow> string \<Rightarrow> response \<times> sys" where
  "server_unlock e s path password =
     (case DB s path of
        None \<Rightarrow> (c_json (error_json ''Note not found or not locked'') 404, s)
      | Some n \<Rightarrow>
          if is_locked n \<and> truthy (password_hash n)
          then (if verifyPassword e password (or_else (password_hash n) [])
                then (c_json (JObj [(''success'', JBool True),
                                    (''note'', JObj [(''content'', JStr (content n)),
                                                     (''lock_type'', json_opt (lock_type n)),
                                                     (''view_count'', JNum (view_count n)),
                                                     (''created_at'', JStr (created_at n)),
                                                     (''updated_at'', JStr (updated_at n))])]) 200,
                      s\<lparr>CACHE := KVStore_delete (CACHE s) (cache_key path)\<rparr>)
                else (c_json (error_json ''Invalid password'') 403, s))
          else (c_json (error_json ''Note not found or not locked'') 404, s))"

definition server_lock ::
  "env \<Rightarrow> sys \<Rightarrow> string \<Rightarrow> string option \<Rightarrow> string option \<Rightarrow> response \<times> sys" where
  "server_lock e s path password lock_type_arg =
     (if falsy password \<or> falsy lock_type_arg
      then (c_json (error_json ''Password and lock_type required'') 400, s)
      else case DB s path of
        None \<Rightarrow> (c_json (error_json ''Note not found'') 404, s)
      | Some n \<Rightarrow>
          (c_json success_json 200,
           \<lparr>DB = run (DB s) (server_update (now e) (DB s) path
                              (set_lock lock_type_arg (Some (hashPassword e (or_else password []))))),
            CACHE = KVStore_delete (CACHE s) (cache_key path)\<rparr>))"

definition server_remove_lock :: "env \<Rightarrow> sys \<Rightarrow> string \<Rightarrow> string \<Rightarrow> response \<times> sys" where
  "server_remove_lock e s path password =
     (case DB s path of
        None \<Rightarrow> (c_json (error_json ''Note not found or not locked'') 404, s)
      | Some n \<Rightarrow>
          if is_locked n \<and> truthy (password_hash n)
          then (if verifyPassword e password (or_else (password_hash n) [])
                then (c_json success_json 200,
                      \<lparr>DB = run (DB s) (server_update (now e) (DB s) path clear_lock),
                       CACHE = KVStore_delete (CACHE s) (cache_key path)\<rparr>)
                else (c_json (error_json ''Invalid password'') 403, s))
          else (c_json (error_json ''Note not found or not locked'') 404, s))"

section \<open>Server runtime: server/src/routes/admin.ts\<close>

text \<open>
  \<^verbatim>\<open>admin.put('/notes/:path')\<close> builds the SET list of one UPDATE statement from the fields
  present in the body; this is the assignment that list denotes.
\<close>

definition admin_put_updates ::
  "env \<Rightarrow> string option \<Rightarrow> bool option \<Rightarrow> string option \<Rightarrow> string option \<Rightarrow> Note \<Rightarrow> Note" where
  "admin_put_updates e body_content body_is_locked body_lock_type body_password n =
     (let n1 = (case body_content of None \<Rightarrow> n | Some c \<Rightarrow> set_content c n)
      in case body_is_locked of
           None \<Rightarrow> n1
         | Some l \<Rightarrow>
             (let n2 = n1\<lparr>is_locked := l\<rparr>
              in if l \<and> truthy body_lock_type
                 then (let n3 = n2\<lparr>lock_type := body_lock_type\<rparr>
                       in if truthy body_password
                          then n3\<lparr>password_hash :=
                                    Some (hashPassword e (or_else body_password []))\<rparr>
                          else n3)
                 else if \<not> l then n2\<lparr>lock_type := None, password_hash := None\<rparr>
                 else n2))"

definition server_admin_put ::
  "env \<Rightarrow> sys \<Rightarrow> string \<Rightarrow> string option \<Rightarrow> bool option \<Rightarrow> string option \<Rightarrow> string option
     \<Rightarrow> response \<times> sys" where
  "server_admin_put e s path body_content body_is_locked body_lock_type body_password =
     (case DB s path of
        None \<Rightarrow> (c_json (error_json ''Note not found'') 404, s)
      | Some existing \<Rightarrow>
          if body_content = None \<and> body_is_locked = None
          then (c_json (error_json ''No updates provided'') 400, s)
          else (c_json success_json 200,
                \<lparr>DB = run (DB s)
                        (server_update (now e) (DB s) path
                           (\<lambda>n. set_updated_at (now e)
                                  (admin_put_updates e body_content body_is_locked
                                     body_lock_type body_password n))),
                 CACHE = KVStore_delete (CACHE s) (cache_key path)\<rparr>))"

text \<open>\<^verbatim>\<open>result.meta?.changes === 0\<close> holds exactly when the DELETE removed no row.\<close>

definition server_admin_delete :: "sys \<Rightarrow> string \<Rightarrow> response \<times> sys" where
  "server_admin_delete s path =
     (case DB s path of
        None \<Rightarrow> (c_json (error_json ''Note not found'') 404, s)
      | Some _ \<Rightarrow>
          (c_json success_json 200,
           \<lparr>DB = sql_delete (DB s) path, CACHE = KVStore_delete (CACHE s) (cache_key path)\<rparr>))"

definition server_admin_create ::
  "env \<Rightarrow> sys \<Rightarrow> string \<Rightarrow> string option \<Rightarrow> bool option \<Rightarrow> string option \<Rightarrow> string option
     \<Rightarrow> response \<times> sys" where
  "server_admin_create e s path body_content body_is_locked body_lock_type body_password =
     (if path = [] then (c_json (error_json ''Path is required'') 400, s)
      else case DB s path of
        Some _ \<Rightarrow> (c_json (error_json ''Path already exists'') 409, s)
      | None \<Rightarrow>
          (c_json (JObj [(''success'', JBool True), (''path'', JStr path)]) 200,
           s\<lparr>DB := run (DB s)
                  (if body_is_locked = Some True \<and> truthy body_password
                   then sql_insert_locked server_check (now e) (DB s) path (or_else body_content [])
                          True (Some (or_else body_lock_type ''write''))
                          (Some (hashPassword e (or_else body_password [])))
                   else sql_insert (now e) (DB s) path (or_else body_content []))\<rparr>))"

text \<open>
  One round of the server's import loop, on the table, the cache and the counter
  \<^verbatim>\<open>imported\<close>. The database adapter and the cache adapter catch their own errors, so
  the \<^verbatim>\<open>catch\<close> of the loop body is never entered and \<^verbatim>\<open>failed\<close> stays 0.
\<close>

definition server_import_note ::
  "env \<Rightarrow> notes_table \<times> kv \<times> nat \<Rightarrow> import_note \<Rightarrow> notes_table \<times> kv \<times> nat" where
  "server_import_note e st item =
     (case st of (db, cache, imported) \<Rightarrow>
        (let locked = (item_is_locked item = Some True \<and> truthy (item_password item));
             t = Some (or_else (item_lock_type item) ''write'');
             h = Some (hashPassword e (or_else (item_password item) []));
             db' = (case db (item_path item) of
                      Some _ \<Rightarrow>
                        if locked
                        then run db (server_update (now e) db (item_path item)
                                       (\<lambda>n. set_lock t h (set_content (item_content item) n)))
                        else run db (server_update (now e) db (item_path item)
                                       (set_content (item_content item)))
                    | None \<Rightarrow>
                        if locked
                        then run db (sql_insert_locked server_check (now e) db (item_path item)
                                       (item_content item) True t h)
                        else run db (sql_insert (now e) db (item_path item) (item_content item)))
         in (db', KVStore_delete cache (cache_key (item_path item)), imported + 1)))"

definition server_admin_import :: "env \<Rightarrow> sys \<Rightarrow> import_note list option \<Rightarrow> response \<times> sys" where
  "server_admin_import e s body_notes =
     (case body_notes of
        None \<Rightarrow> (c_json (error_json ''Invalid import data'') 400, s)
      | Some ns \<Rightarrow>
          (case foldl (server_import_note e) (DB s, CACHE s, 0) ns of
             (db', cache', imported) \<Rightarrow>
               (c_json (JObj [(''success'', JBool True), (''imported'', JNum (int imported)),
                              (''failed'', JNum 0), (''total'', JNum (int (length ns)))]) 200,
                \<lparr>DB = db', CACHE = cache'\<rparr>)))"

section \<open>Blob store: R2Storage.getFilePath\<close>

text \<open>
  \<^verbatim>\<open>key.replace(/[^a-zA-Z0-9-_./]/g, '_')\<close>: every character outside the class becomes an
  underscore.
\<close>

definition safe_char :: "char \<Rightarrow> bool" where
  "safe_char c =
     (let n = (of_char c :: nat) in
        (97 \<le> n \<and> n \<le> 122) \<or> (65 \<le> n \<and> n \<le> 90) \<or> (48 \<le> n \<and> n \<le> 57)
        \<or> n = 45 \<or> n = 95 \<or> n = 46 \<or> n = 47)"

definition safeKey :: "string \<Rightarrow> string" where
  "safeKey key = map (\<lambda>c. if safe_char c then c else CHR ''_'') key"

text \<open>
  \<^verbatim>\<open>path.join\<close> of Node.js on a POSIX system, as its documentation describes it: the
  non-empty arguments are joined with a slash and the result is normalized. Normalizing
  drops empty and \<^verbatim>\<open>.\<close> segments and lets a \<^verbatim>\<open>..\<close> segment remove the segment before it;
  above the root of an absolute path a \<^verbatim>\<open>..\<close> is dropped, in front of a relative path it
  is kept.
\<close>

fun split_slash :: "string \<Rightarrow> string \<Rightarrow> string list" where
  "split_slash acc [] = [rev acc]"
| "split_slash acc (c # cs) =
     (if c = CHR ''/'' then rev acc # split_slash [] cs else split_slash (c # acc) cs)"

fun normalizeString :: "bool \<Rightarrow> string list \<Rightarrow> string list \<Rightarrow> string list" where
  "normalizeString allowAboveRoot res [] = rev res"
| "normalizeString allowAboveRoot res (seg # segs) =
     (if seg = [] \<or> seg = ''.'' then normalizeString allowAboveRoot res segs
      else if seg = ''..''
      then (case res of
              [] \<Rightarrow> normalizeString allowAboveRoot (if allowAboveRoot then [seg] else []) segs
            | r # rs \<Rightarrow>
                if r = ''..''
                then normalizeString allowAboveRoot (if allowAboveRoot then seg # res else res) segs
                else normalizeString allowAboveRoot rs segs)
      else normalizeString allowAboveRoot (seg # res) segs)"

fun join_slash :: "string list \<Rightarrow> string" where
  "join_slash [] = []"
| "join_slash [seg] = seg"
| "join_slash (seg # segs) = seg @ CHR ''/'' # join_slash segs"

definition path_normalize :: "string \<Rightarrow> string" where
  "path_normalize p =
     (if p = [] then ''.''
      else let isAbsolute = (hd p = CHR ''/'');
               trailingSeparator = (last p = CHR ''/'');
               p1 = join_slash (normalizeString (\<not> isAbsolute) [] (split_slash [] p));
               p2 = (if p1 = [] \<and> \<not> isAbsolute then ''.'' else p1);
               p3 = (if p2 \<noteq> [] \<and> trailingSeparator then p2 @ ''/'' else p2)
           in if isAbsolute then CHR ''/'' # p3 else p3)"

definition path_join :: "string \<Rightarrow> string \<Rightarrow> string" where
  "path_join a b =
     (if a = [] then path_normalize b
      else if b = [] then path_normalize a
      else path_normalize (a @ CHR ''/'' # b))"

definition getFilePath :: "string \<Rightarrow> string \<Rightarrow> string" where
  "getFilePath basePath key = path_join basePath (safeKey key)"

text \<open>A normalized absolute path lies inside a directory when it is the directory or below it.\<close>

definition inside :: "string \<Rightarrow> string \<Rightarrow> bool" where
  "inside base p = (p = base \<or> prefix (base @ ''/'') p)"

section \<open>The two runtimes behind one interface\<close>

datatype runtime = Worker | Server

fun get_note :: "runtime \<Rightarrow> env \<Rightarrow> sys \<Rightarrow> string \<Rightarrow> response \<times> sys" where
  "get_note Worker = worker_get_note"
| "get_note Server = server_get_note"

text \<open>A read-locked row: the handlers' test \<^verbatim>\<open>is_locked && lock_type === 'read'\<close>.\<close>

definition read_locked :: "Note \<Rightarrow> bool" where
  "read_locked n = (is_locked n \<and> lock_type n = Some ''read'')"

section \<open>Concrete inputs\<close>

text \<open>
  An environment and rows used to run the handlers: the hash of a password is the
  password behind a fixed salt, and the sanitizer is the identity, as the three
  replacements of \<^verbatim>\<open>sanitizeHtml\<close> are on a text without \<^verbatim>\<open><\<close>, \<^verbatim>\<open>=\<close> and \<^verbatim>\<open>:\<close>.
\<close>

definition env0 :: env where
  "env0 = \<lparr>now = ''2025-06-01 12:00:00'',
            hashPassword = (\<lambda>p. ''5a17:'' @ p),
            verifyPassword = (\<lambda>p h. h = ''5a17:'' @ p),
            sanitizeHtml = (\<lambda>h. h),
            PATH_MIN_LENGTH = 1,
            PATH_MAX_LENGTH = 20\<rparr>"

definition plain_note :: "string \<Rightarrow> int \<Rightarrow> Note" where
  "plain_note c vc =
     \<lparr>content = c, is_locked = False, lock_type = None, password_hash = None,
      created_at = ''2025-01-01 00:00:00'', updated_at = ''2025-01-01 00:00:00'',
      view_count = vc\<rparr>"

definition locked_note :: "string \<Rightarrow> string \<Rightarrow> int \<Rightarrow> Note" where
  "locked_note c t vc =
     \<lparr>content = c, is_locked = True, lock_type = Some t, password_hash = Some ''5a17:p1'',
      created_at = ''2025-01-01 00:00:00'', updated_at = ''2025-01-01 00:00:00'',
      view_count = vc\<rparr>"

definition empty_cache :: kv where
  "empty_cache = \<lparr>entries = Map.empty, unavailable = False\<rparr>"

definition sys_of :: "string \<Rightarrow> Note \<Rightarrow> sys" where
  "sys_of path n = \<lparr>DB = [path \<mapsto> n], CACHE = empty_cache\<rparr>"

definition import0 :: import_note where
  "import0 = \<lparr>item_path = ''abc'', item_content = ''hello'', item_is_locked = Some True,
               item_lock_type = None, item_password = None\<rparr>"

text \<open>A state whose cache holds a snapshot for a path that has no row.\<close>

definition stale_sys :: sys where
  "stale_sys =
     \<lparr>DB = Map.empty,
      CACHE = \<lparr>entries = [cache_key ''abc'' \<mapsto> (NoteResponse (plain_note ''old'' 5), 900)],
               unavailable = False\<rparr>\<rparr>"

text \<open>A state whose cache backend is unavailable.\<close>

definition down_sys :: sys where
  "down_sys = \<lparr>DB = [''abc'' \<mapsto> plain_note ''hello'' 0],
               CACHE = \<lparr>entries = Map.empty, unavailable = True\<rparr>\<rparr>"

section \<open>The lock invariant\<close>

text \<open>
  \<^verbatim>\<open>is_locked = false\<close> exactly when \<^verbatim>\<open>lock_type\<close> is absent, exactly when
  \<^verbatim>\<open>password_hash\<close> is absent; and the same for every row of a table.
\<close>

definition lock_invariant :: "Note \<Rightarrow> bool" where
  "lock_invariant n =
     ((is_locked n = False) = (lock_type n = None)
      \<and> (lock_type n = None) = (password_hash n = None))"

definition lock_invariant_db :: "notes_table \<Rightarrow> bool" where
  "lock_invariant_db db = (\<forall>p n. db p = Some n \<longrightarrow> lock_invariant n)"

section \<open>Unfolding rules for running the handlers\<close>

text \<open>The two path validators agree.\<close>

lemma worker_validatePath_eq [simp]:
  "worker_validatePath path minLength maxLength = validatePath path minLength maxLength"
  by (auto simp: worker_validatePath_def validatePath_def)

lemmas input_defs = env0_def plain_note_def locked_note_def empty_cache_def sys_of_def
  import0_def stale_sys_def down_sys_def

lemmas adapter_defs = validatePath_def path_char_def is_ws_def trim_def
  kv_get_def kv_put_def kv_delete_def KVStore_get_def KVStore_put_def KVStore_delete_def
  cache_key_def cache_ttl_def waitUntil_def run_def
  sql_update_def sql_insert_def sql_insert_locked_def sql_insert_or_replace_def sql_delete_def
  worker_check_def server_update_def update_notes_timestamp_def
  set_view_count_def set_content_def set_updated_at_def set_lock_def clear_lock_def
  new_row_def locked_row_def

lemmas json_defs = c_json_def error_json_def success_json_def json_opt_def row_json_def
  NoteResponse_def read_lock_json_def invalid_path_def database_error_def

lemmas handler_defs = worker_get_note_def worker_save_note_def worker_write_lock_def
  worker_unlock_def worker_lock_def worker_remove_lock_def worker_commit_def
  worker_admin_delete_def worker_admin_put_def worker_import_note_def worker_admin_import_def
  server_get_note_def server_save_note_def server_lock_check_def server_unlock_def
  server_lock_def server_remove_lock_def server_admin_put_def admin_put_updates_def
  server_admin_delete_def server_admin_create_def server_import_note_def server_admin_import_def

lemmas run_defs = input_defs adapter_defs json_defs handler_defs Let_def

section \<open>Cache population on a read\<close>

lemma cache_ttl_mono: "a \<le> b \<Longrightarrow> cache_ttl a \<le> cache_ttl b"
  by (simp add: cache_ttl_def min_def max_def)

lemma cache_ttl_bounds: "300 \<le> cache_ttl a \<and> cache_ttl a \<le> 86400"
  by (simp add: cache_ttl_def min_def max_def)

lemma worker_get_miss_entry:
  assumes "entries (CACHE s) (cache_key path) = None" and "DB s path = Some n"
    and "\<not> read_locked n"
    and "entries (CACHE (snd (worker_get_note e s path))) (cache_key path) = Some (v, ttl)"
  shows "2 \<le> view_count n \<and> ttl = cache_ttl (view_count n)"
  using assms
  by (auto simp: worker_get_note_def kv_get_def kv_put_def waitUntil_def read_locked_def Let_def
      split: if_splits sum.splits option.splits)

lemma worker_get_miss_cold:
  assumes "entries (CACHE s) (cache_key path) = None" and "DB s path = Some n"
    and "\<not> read_locked n" and "view_count n < 2"
  shows "CACHE (snd (worker_get_note e s path)) = CACHE s"
  using assms
  by (auto simp: worker_get_note_def kv_get_def read_locked_def Let_def
      split: if_splits sum.splits option.splits)

lemma server_get_miss_entry:
  assumes "entries (CACHE s) (cache_key path) = None" and "DB s path = Some n"
    and "\<not> read_locked n"
    and "entries (CACHE (snd (server_get_note e s path))) (cache_key path) = Some (v, ttl)"
  shows "2 \<le> view_count n \<and> ttl = cache_ttl (view_count n)"
  using assms cache_ttl_bounds [of "view_count n"]
  by (auto simp: server_get_note_def KVStore_get_def KVStore_put_def kv_get_def kv_put_def
        read_locked_def Let_def
      split: if_splits sum.splits option.splits)

lemma server_get_miss_cold:
  assumes "entries (CACHE s) (cache_key path) = None" and "DB s path = Some n"
    and "\<not> read_locked n" and "view_count n < 2"
  shows "CACHE (snd (server_get_note e s path)) = CACHE s"
  using assms
  by (auto simp: server_get_note_def KVStore_get_def kv_get_def read_locked_def Let_def
      split: if_splits sum.splits option.splits)

lemma get_miss_warm:
  assumes "validatePath path (PATH_MIN_LENGTH e) (PATH_MAX_LENGTH e)"
    and "entries (CACHE s) (cache_key path) = None" and "DB s path = Some n"
    and "\<not> read_locked n" and "\<not> unavailable (CACHE s)" and "2 \<le> view_count n"
  shows "\<exists>v. entries (CACHE (snd (get_note r e s path))) (cache_key path)
               = Some (v, cache_ttl (view_count n))"
  using assms cache_ttl_bounds [of "view_count n"]
  by (cases r)
     (auto simp: server_get_note_def worker_get_note_def waitUntil_def KVStore_get_def
        KVStore_put_def kv_get_def kv_put_def read_locked_def Let_def
      split: if_splits sum.splits option.splits)

text \<open>
  C7. On either runtime, take a read of a valid path that misses the cache and finds a
  row that is not read-locked. If the row's view count, as selected before the
  increment, is below 2, the read leaves the cache as it was. If after the read the
  cache holds an entry under \<^verbatim>\<open>note:<path>\<close>, then the view count was at least 2 and the
  entry's TTL is \<open>min 86400 (max 300 (view_count * 180))\<close>; and with a view count of at
  least 2 and a cache that is available, the read does create such an entry. The TTL is
  non-decreasing in the view count and lies between 300 and 86400.
\<close>

theorem cache_gating_and_ttl:
  assumes "validatePath path (PATH_MIN_LENGTH e) (PATH_MAX_LENGTH e)"
    and "entries (CACHE s) (cache_key path) = None"
    and "DB s path = Some n"
    and "\<not> read_locked n"
  shows "(view_count n < 2 \<longrightarrow> CACHE (snd (get_note r e s path)) = CACHE s)
       \<and> (\<forall>v ttl. entries (CACHE (snd (get_note r e s path))) (cache_key path) = Some (v, ttl)
             \<longrightarrow> 2 \<le> view_count n \<and> ttl = min 86400 (max 300 (view_count n * 180)))
       \<and> (2 \<le> view_count n \<and> \<not> unavailable (CACHE s)
             \<longrightarrow> (\<exists>v. entries (CACHE (snd (get_note r e s path))) (cache_key path)
                        = Some (v, min 86400 (max 300 (view_count n * 180)))))
       \<and> (\<forall>vc vc'. vc \<le> vc' \<longrightarrow> cache_ttl vc \<le> cache_ttl vc')
       \<and> (\<forall>vc. 300 \<le> cache_ttl vc \<and> cache_ttl vc \<le> 86400)"
proof -
  have cold: "view_count n < 2 \<longrightarrow> CACHE (snd (get_note r e s path)) = CACHE s"
    using assms by (cases r) (simp_all add: worker_get_miss_cold server_get_miss_cold)
  have entry: "2 \<le> view_count n \<and> ttl = min 86400 (max 300 (view_count n * 180))"
    if "entries (CACHE (snd (get_note r e s path))) (cache_key path) = Some (v, ttl)" for v ttl
  proof (cases r)
    case Worker
    with that assms worker_get_miss_entry [of s path n e v ttl] show ?thesis
      by (simp add: cache_ttl_def)
  next
    case Server
    with that assms server_get_miss_entry [of s path n e v ttl] show ?thesis
      by (simp add: cache_ttl_def)
  qed
  have warm: "2 \<le> view_count n \<and> \<not> unavailable (CACHE s)
      \<longrightarrow> (\<exists>v. entries (CACHE (snd (get_note r e s path))) (cache_key path)
                 = Some (v, min 86400 (max 300 (view_count n * 180))))"
    using assms get_miss_warm [of path e s n r] by (simp add: cache_ttl_def)
  from cold entry warm show ?thesis
    using cache_ttl_mono cache_ttl_bounds by blast
qed

theorem cache_gating_and_ttl_witness:
  "validatePath ''abc'' (PATH_MIN_LENGTH env0) (PATH_MAX_LENGTH env0)
   \<and> entries (CACHE (sys_of ''abc'' (plain_note ''hello'' 5))) (cache_key ''abc'') = None
   \<and> DB (sys_of ''abc'' (plain_note ''hello'' 5)) ''abc'' = Some (plain_note ''hello'' 5)
   \<and> \<not> read_locked (plain_note ''hello'' 5)
   \<and> 2 \<le> view_count (plain_note ''hello'' 5)
   \<and> \<not> unavailable (CACHE (sys_of ''abc'' (plain_note ''hello'' 5)))
   \<and> (\<exists>v. entries (CACHE (snd (get_note Server env0 (sys_of ''abc'' (plain_note ''hello'' 5)) ''abc'')))
             (cache_key ''abc'') = Some (v, 900))
   \<and> view_count (plain_note ''hello'' 1) < 2
   \<and> CACHE (snd (get_note Worker env0 (sys_of ''abc'' (plain_note ''hello'' 1)) ''abc''))
       = CACHE (sys_of ''abc'' (plain_note ''hello'' 1))
   \<and> cache_ttl 2 \<le> cache_ttl 5"
proof -
  have valid: "validatePath ''abc'' (PATH_MIN_LENGTH env0) (PATH_MAX_LENGTH env0)"
    by (simp add: validatePath_def path_char_def env0_def)
  have miss: "entries (CACHE (sys_of ''abc'' (plain_note ''hello'' vc))) (cache_key ''abc'') = None"
    for vc by (simp add: sys_of_def empty_cache_def)
  have row: "DB (sys_of ''abc'' (plain_note ''hello'' vc)) ''abc'' = Some (plain_note ''hello'' vc)"
    for vc by (simp add: sys_of_def)
  have viewable: "\<not> read_locked (plain_note ''hello'' vc)" for vc
    by (simp add: read_locked_def plain_note_def)
  have up: "\<not> unavailable (CACHE (sys_of ''abc'' (plain_note ''hello'' 5)))"
    by (simp add: sys_of_def empty_cache_def)
  have five: "view_count (plain_note ''hello'' 5) = 5" and one: "view_count (plain_note ''hello'' 1) = 1"
    by (simp_all add: plain_note_def)
  note warm = cache_gating_and_ttl [OF valid miss row viewable, of 5 Server]
  note cold = cache_gating_and_ttl [OF valid miss row viewable, of 1 Worker]
  from warm up five have "\<exists>v. entries (CACHE (snd (get_note Server env0
      (sys_of ''abc'' (plain_note ''hello'' 5)) ''abc''))) (cache_key ''abc'') = Some (v, 900)"
    by simp
  moreover from cold one have "CACHE (snd (get_note Worker env0
      (sys_of ''abc'' (plain_note ''hello'' 1)) ''abc'')) = CACHE (sys_of ''abc'' (plain_note ''hello'' 1))"
    by simp
  moreover from warm have "cache_ttl 2 \<le> cache_ttl 5" by simp
  ultimately show ?thesis
    using valid miss row viewable up five one by simp
qed

section \<open>Reads of a read-locked note\<close>

text \<open>
  The server checks the lock before it touches the cache: a read that misses the cache
  and finds a read-locked row changes nothing and answers without the content.
\<close>

lemma server_get_read_locked:
  assumes "entries (CACHE s) (cache_key path) = None" and "DB s path = Some n"
    and "read_locked n"
  shows "snd (server_get_note e s path) = s"
    and "\<not> has_key ''content'' (body (fst (server_get_note e s path)))"
  using assms
  by (auto simp: server_get_note_def KVStore_get_def kv_get_def read_locked_def json_defs)

text \<open>
  The edge handler stores the row of a read-locked note as soon as its view count has
  reached 2, and answers any later read from the stored entry.
\<close>

lemma worker_get_read_locked_caches:
  assumes "validatePath path (PATH_MIN_LENGTH e) (PATH_MAX_LENGTH e)"
    and "\<not> unavailable (CACHE s)" and "entries (CACHE s) (cache_key path) = None"
    and "DB s path = Some n" and "read_locked n" and "2 \<le> view_count n"
  shows "entries (CACHE (snd (worker_get_note e s path))) (cache_key path)
           = Some (row_json path n, cache_ttl (view_count n))"
  using assms
  by (simp add: worker_get_note_def kv_get_def kv_put_def waitUntil_def Let_def)

lemma worker_get_hit_returns_entry:
  assumes "validatePath path (PATH_MIN_LENGTH e) (PATH_MAX_LENGTH e)"
    and "\<not> unavailable (CACHE s)" and "entries (CACHE s) (cache_key path) = Some (v, ttl)"
  shows "fst (worker_get_note e s path) = c_json v 200"
  using assms
  by (simp add: worker_get_note_def kv_get_def sql_update_def worker_check_def
      split: option.splits)

text \<open>
  C1. The edge handler writes the cache before it looks at the lock. On the read-locked
  note \<open>abc\<close> with content \<open>secret\<close> and view count 2, and an empty cache, its first GET
  stores the whole row under \<^verbatim>\<open>note:abc\<close> with TTL 360, and its second GET, served from
  that entry, answers with the content \<open>secret\<close>. The server's handler on the same input
  leaves the cache empty and no answer of it has a content field.
\<close>

theorem worker_read_locked_get_caches_row:
  "entries (CACHE (snd (worker_get_note env0 (sys_of ''abc'' (locked_note ''secret'' ''read'' 2)) ''abc'')))
      (cache_key ''abc'')
     = Some (row_json ''abc'' (locked_note ''secret'' ''read'' 2), 360)
   \<and> map_of (members (body (fst (worker_get_note env0
         (snd (worker_get_note env0 (sys_of ''abc'' (locked_note ''secret'' ''read'' 2)) ''abc''))
         ''abc'')))) ''content''
       = Some (JStr ''secret'')
   \<and> CACHE (snd (server_get_note env0 (sys_of ''abc'' (locked_note ''secret'' ''read'' 2)) ''abc''))
       = empty_cache
   \<and> has_key ''content'' (body (fst (server_get_note env0
         (snd (server_get_note env0 (sys_of ''abc'' (locked_note ''secret'' ''read'' 2)) ''abc''))
         ''abc'')))
       = False"
  by (simp add: run_defs)

section \<open>The password hash in responses and snapshots\<close>

text \<open>
  The server builds its answers field by field and leaves the hash out: of a read that
  misses the cache, of the snapshot such a read stores, and of an unlock.
\<close>

lemma server_get_no_password_hash:
  assumes "entries (CACHE s) (cache_key path) = None"
  shows "\<not> has_key ''password_hash'' (body (fst (server_get_note e s path)))"
  using assms
  by (auto simp: server_get_note_def KVStore_get_def kv_get_def json_defs Let_def
      split: option.splits)

lemma server_get_snapshot_no_password_hash:
  assumes "entries (CACHE s) (cache_key path) = None"
    and "entries (CACHE (snd (server_get_note e s path))) (cache_key path) = Some (v, ttl)"
  shows "\<not> has_key ''password_hash'' v"
  using assms
  by (auto simp: server_get_note_def KVStore_get_def KVStore_put_def kv_get_def kv_put_def
        json_defs Let_def
      split: option.splits if_splits)

lemma server_unlock_no_password_hash:
  "\<not> has_key ''password_hash'' (body (fst (server_unlock e s path password)))"
  by (auto simp: server_unlock_def json_defs split: option.splits)

text \<open>
  C2. The edge handlers answer with the row itself. On the write-locked note \<open>abc\<close> with
  view count 2, the body of GET has the field \<^verbatim>\<open>password_hash\<close> with the stored hash, the
  snapshot that GET puts in the cache has it too, and the body of a successful unlock has
  it inside \<^verbatim>\<open>note\<close>. The server's GET and unlock on the same input have no such field.
\<close>

theorem worker_exposes_password_hash:
  "map_of (members (body (fst (worker_get_note env0
        (sys_of ''abc'' (locked_note ''hello'' ''write'' 2)) ''abc''))))
      ''password_hash'' = Some (JStr ''5a17:p1'')
   \<and> map_option (\<lambda>en. map_of (members (fst en)) ''password_hash'')
        (entries (CACHE (snd (worker_get_note env0
            (sys_of ''abc'' (locked_note ''hello'' ''write'' 2)) ''abc'')))
           (cache_key ''abc''))
       = Some (Some (JStr ''5a17:p1''))
   \<and> has_key ''password_hash''
        (body (fst (worker_unlock env0 (sys_of ''abc'' (locked_note ''hello'' ''write'' 2))
           ''abc'' ''p1'')))
   \<and> has_key ''password_hash''
        (body (fst (server_get_note env0 (sys_of ''abc'' (locked_note ''hello'' ''write'' 2))
           ''abc''))) = False
   \<and> has_key ''password_hash''
        (body (fst (server_unlock env0 (sys_of ''abc'' (locked_note ''hello'' ''write'' 2))
           ''abc'' ''p1''))) = False"
  by (simp add: run_defs)

section \<open>Saving to a locked note\<close>

text \<open>
  The server asks for the password of any locked row that has a hash: without a password
  that verifies, the save answers 403 and changes nothing.
\<close>

lemma server_save_locked_rejected:
  assumes "validatePath path (PATH_MIN_LENGTH e) (PATH_MAX_LENGTH e)"
    and "DB s path = Some n" and "is_locked n" and "truthy (password_hash n)"
    and "falsy body_password
         \<or> \<not> verifyPassword e (or_else body_password []) (or_else (password_hash n) [])"
  shows "status (fst (server_save_note e s path body_content body_password)) = 403"
    and "snd (server_save_note e s path body_content body_password) = s"
  using assms
  by (auto simp: server_save_note_def server_lock_check_def c_json_def Let_def)

text \<open>
  The edge handler accepts a save to any read-locked row, whatever password is sent.
\<close>

lemma worker_save_read_locked_accepted:
  assumes "validatePath path (PATH_MIN_LENGTH e) (PATH_MAX_LENGTH e)"
    and "\<not> unavailable (CACHE s)"
    and "trim (sanitizeHtml e (or_else body_content [])) \<noteq> []"
    and "DB s path = Some n" and "lock_type n = Some ''read''"
  shows "status (fst (worker_save_note e s path body_content body_password)) = 200"
    and "map_option content (DB (snd (worker_save_note e s path body_content body_password)) path)
           = Some (sanitizeHtml e (or_else body_content []))"
  using assms
  by (simp_all add: worker_save_note_def worker_write_lock_def worker_commit_def sql_update_def
        worker_check_def kv_delete_def set_content_def set_updated_at_def json_defs Let_def)

text \<open>
  C3. The edge handler asks for the password only when \<^verbatim>\<open>lock_type\<close> is \<^verbatim>\<open>write\<close>. On the
  read-locked note \<open>abc\<close> with content \<open>secret\<close>, a save of \<open>overwritten\<close> with no
  password answers 200 and the row's content becomes \<open>overwritten\<close>. The server on the
  same input answers 403 and leaves the state as it was.
\<close>

theorem worker_save_overwrites_read_locked:
  "status (fst (worker_save_note env0 (sys_of ''abc'' (locked_note ''secret'' ''read'' 0)) ''abc''
       (Some ''overwritten'') None)) = 200
   \<and> map_option content
        (DB (snd (worker_save_note env0 (sys_of ''abc'' (locked_note ''secret'' ''read'' 0))
           ''abc'' (Some ''overwritten'') None)) ''abc'')
       = Some ''overwritten''
   \<and> server_save_note env0 (sys_of ''abc'' (locked_note ''secret'' ''read'' 0)) ''abc''
        (Some ''overwritten'') None
       = (c_json (error_json ''Password required'') 403,
          sys_of ''abc'' (locked_note ''secret'' ''read'' 0))"
  by (simp add: run_defs)

section \<open>Saving blank content\<close>

text \<open>
  The edge handler rejects a save whose sanitized content trims to the empty string,
  whether or not the path has a row: it answers 400 and changes nothing.
\<close>

lemma worker_save_blank_rejected:
  assumes "validatePath path (PATH_MIN_LENGTH e) (PATH_MAX_LENGTH e)"
    and "trim (sanitizeHtml e (or_else body_content [])) = []"
  shows "status (fst (worker_save_note e s path body_content body_password)) = 400"
    and "snd (worker_save_note e s path body_content body_password) = s"
  using assms
  by (auto simp: worker_save_note_def c_json_def Let_def)

text \<open>
  The server's save to a path without a row inserts the sanitized content, whatever it
  is, and does not touch the cache.
\<close>

lemma server_save_creates_row:
  assumes "validatePath path (PATH_MIN_LENGTH e) (PATH_MAX_LENGTH e)" and "DB s path = None"
  shows "status (fst (server_save_note e s path body_content body_password)) = 200"
    and "DB (snd (server_save_note e s path body_content body_password)) path
           = Some (new_row (now e) (sanitizeHtml e (or_else body_content [])))"
    and "CACHE (snd (server_save_note e s path body_content body_password)) = CACHE s"
  using assms
  by (simp_all add: server_save_note_def sql_insert_def run_def json_defs Let_def)

text \<open>
  C4. The server's save handler has no such test. On an empty table, a save of three
  spaces to \<open>abc\<close> answers 200 and inserts a row for \<open>abc\<close> whose content is the three
  spaces. The edge handler on the same input answers 400 and inserts nothing.
\<close>

theorem server_save_creates_blank_note:
  "status (fst (server_save_note env0 \<lparr>DB = Map.empty, CACHE = empty_cache\<rparr> ''abc''
       (Some ''   '') None)) = 200
   \<and> DB (snd (server_save_note env0 \<lparr>DB = Map.empty, CACHE = empty_cache\<rparr> ''abc''
        (Some ''   '') None)) ''abc''
       = Some (new_row (now env0) ''   '')
   \<and> worker_save_note env0 \<lparr>DB = Map.empty, CACHE = empty_cache\<rparr> ''abc'' (Some ''   '') None
       = (c_json (error_json ''Content cannot be empty'') 400,
          \<lparr>DB = Map.empty, CACHE = empty_cache\<rparr>)"
  by (simp add: run_defs)

section \<open>Preservation of the lock invariant\<close>

text \<open>
  The statements that write the lock columns keep the invariant when given a lock type
  and a hash together, or neither.
\<close>

lemma lock_invariant_db_upd:
  "lock_invariant_db db \<Longrightarrow> lock_invariant n \<Longrightarrow> lock_invariant_db (db(path \<mapsto> n))"
  by (simp add: lock_invariant_db_def)

lemma lock_invariant_db_row:
  "lock_invariant_db db \<Longrightarrow> db path = Some n \<Longrightarrow> lock_invariant n"
  by (simp add: lock_invariant_db_def)

lemma assignments_invariant:
  "lock_invariant n \<Longrightarrow> lock_invariant (set_view_count n)"
  "lock_invariant n \<Longrightarrow> lock_invariant (set_content c n)"
  "lock_invariant n \<Longrightarrow> lock_invariant (set_updated_at ts n)"
  "lock_invariant (set_lock (Some t) (Some h) n)"
  "lock_invariant (clear_lock n)"
  by (simp_all add: lock_invariant_def set_view_count_def set_content_def set_updated_at_def
        set_lock_def clear_lock_def)

lemma sql_update_invariant:
  assumes "lock_invariant_db db" and "\<And>n. lock_invariant n \<Longrightarrow> lock_invariant (f n)"
  shows "lock_invariant_db (waitUntil db (sql_update chk db path f))"
    and "sql_update chk db path f = Inr db' \<Longrightarrow> lock_invariant_db db'"
  using assms lock_invariant_db_row [of db path]
  by (auto simp: sql_update_def waitUntil_def lock_invariant_db_upd
      split: option.splits if_splits)

lemma view_count_invariant:
  assumes "lock_invariant_db db"
  shows "lock_invariant_db (waitUntil db (sql_update chk db path set_view_count))"
    and "sql_update chk db path set_view_count = Inr db' \<Longrightarrow> lock_invariant_db db'"
  using assms sql_update_invariant(1) [of db set_view_count chk path]
    sql_update_invariant(2) [of db set_view_count chk path db']
  by (simp_all add: assignments_invariant)

lemma server_update_invariant:
  assumes "lock_invariant_db db" and "\<And>n. lock_invariant n \<Longrightarrow> lock_invariant (f n)"
  shows "lock_invariant_db (run db (server_update ts db path f))"
proof (cases "db path")
  case None
  with assms show ?thesis
    by (simp add: server_update_def sql_update_def run_def update_notes_timestamp_def)
next
  case (Some n)
  with assms have "lock_invariant (f n)" by (simp add: lock_invariant_db_row)
  then have "lock_invariant (set_updated_at ts (f n))"
    by (simp add: lock_invariant_def set_updated_at_def)
  with assms Some show ?thesis
    by (simp add: server_update_def sql_update_def run_def update_notes_timestamp_def
        lock_invariant_db_upd)
qed

lemma sql_insert_invariant:
  assumes "lock_invariant_db db"
  shows "lock_invariant_db (run db (sql_insert ts db path c))"
    and "sql_insert ts db path c = Inr db' \<Longrightarrow> lock_invariant_db db'"
    and "lock_invariant_db (run db (sql_insert_locked chk ts db path c True (Some t) (Some h)))"
proof -
  have new: "lock_invariant (new_row ts c)"
    "lock_invariant (locked_row ts c True (Some t) (Some h))"
    by (simp_all add: lock_invariant_def new_row_def locked_row_def)
  with assms show "lock_invariant_db (run db (sql_insert ts db path c))"
    and "sql_insert ts db path c = Inr db' \<Longrightarrow> lock_invariant_db db'"
    and "lock_invariant_db (run db (sql_insert_locked chk ts db path c True (Some t) (Some h)))"
    by (auto simp: sql_insert_def sql_insert_locked_def run_def lock_invariant_db_upd
        split: option.splits)
qed

lemma sql_delete_invariant:
  "lock_invariant_db db \<Longrightarrow> lock_invariant_db (sql_delete db path)"
  by (simp add: lock_invariant_db_def sql_delete_def)

lemma worker_commit_Inr:
  assumes "lock_invariant_db (DB s)" and "\<And>db'. r = Inr db' \<Longrightarrow> lock_invariant_db db'"
  shows "lock_invariant_db (DB (snd (worker_commit s path r)))"
proof (cases r)
  case (Inl x)
  with assms(1) show ?thesis by (simp add: worker_commit_def)
next
  case (Inr db')
  with assms(2) have "lock_invariant_db db'" by simp
  with Inr show ?thesis by (simp add: worker_commit_def split: sum.splits)
qed

lemma worker_commit_invariant:
  assumes "lock_invariant_db (DB s)"
  shows "(\<And>n. lock_invariant n \<Longrightarrow> lock_invariant (f n)) \<Longrightarrow>
           lock_invariant_db (DB (snd (worker_commit s path (sql_update chk (DB s) path f))))"
    and "lock_invariant_db (DB (snd (worker_commit s path (sql_insert ts (DB s) path c))))"
    and "lock_invariant_db (DB (snd (worker_commit s path (Inr (sql_delete (DB s) path)))))"
proof -
  show "lock_invariant_db (DB (snd (worker_commit s path (sql_update chk (DB s) path f))))"
    if upd: "\<And>n. lock_invariant n \<Longrightarrow> lock_invariant (f n)"
  proof (rule worker_commit_Inr [OF assms])
    fix db' assume "sql_update chk (DB s) path f = Inr db'"
    with assms upd show "lock_invariant_db db'" by (rule sql_update_invariant(2))
  qed
  show "lock_invariant_db (DB (snd (worker_commit s path (sql_insert ts (DB s) path c))))"
  proof (rule worker_commit_Inr [OF assms])
    fix db' assume "sql_insert ts (DB s) path c = Inr db'"
    with assms show "lock_invariant_db db'" by (rule sql_insert_invariant(2))
  qed
  show "lock_invariant_db (DB (snd (worker_commit s path (Inr (sql_delete (DB s) path)))))"
    using assms by (intro worker_commit_Inr) (auto simp: sql_delete_invariant)
qed

text \<open>The public handlers of the edge runtime keep the invariant on every row.\<close>

lemma worker_get_invariant:
  assumes "lock_invariant_db (DB s)"
  shows "lock_invariant_db (DB (snd (worker_get_note e s path)))"
  using assms
  by (auto simp: worker_get_note_def Let_def view_count_invariant
      split: sum.splits option.splits)

lemma worker_save_invariant:
  assumes "lock_invariant_db (DB s)"
  shows "lock_invariant_db (DB (snd (worker_save_note e s path bc bp)))"
  using assms
  by (simp add: worker_save_note_def Let_def worker_commit_invariant assignments_invariant
      split: option.splits)

lemma worker_unlock_invariant:
  assumes "lock_invariant_db (DB s)"
  shows "lock_invariant_db (DB (snd (worker_unlock e s path pw)))"
  using assms by (simp add: worker_unlock_def split: option.splits sum.splits)

lemma worker_lock_invariant:
  assumes "lock_invariant_db (DB s)"
  shows "lock_invariant_db (DB (snd (worker_lock e s path lp lt)))"
  using assms
  by (cases lt)
     (simp_all add: worker_lock_def worker_commit_invariant assignments_invariant
      split: option.splits)

lemma worker_remove_lock_invariant:
  assumes "lock_invariant_db (DB s)"
  shows "lock_invariant_db (DB (snd (worker_remove_lock e s path pw)))"
  using assms
  by (simp add: worker_remove_lock_def worker_commit_invariant assignments_invariant
      split: option.splits)

text \<open>
  So do the public handlers of the server, and the server's admin create and import,
  which lock a note only with \<^verbatim>\<open>is_locked && password\<close> and default the lock type.
\<close>

lemma server_get_invariant:
  assumes "lock_invariant_db (DB s)"
  shows "lock_invariant_db (DB (snd (server_get_note e s path)))"
  using assms
  by (simp add: server_get_note_def Let_def server_update_invariant assignments_invariant
      split: option.splits)

lemma server_save_invariant:
  assumes "lock_invariant_db (DB s)"
  shows "lock_invariant_db (DB (snd (server_save_note e s path bc bp)))"
  using assms
  by (simp add: server_save_note_def Let_def server_update_invariant sql_insert_invariant
        assignments_invariant
      split: option.splits)

lemma server_unlock_invariant:
  assumes "lock_invariant_db (DB s)"
  shows "lock_invariant_db (DB (snd (server_unlock e s path pw)))"
  using assms by (simp add: server_unlock_def split: option.splits)

lemma server_lock_invariant:
  assumes "lock_invariant_db (DB s)"
  shows "lock_invariant_db (DB (snd (server_lock e s path lp lt)))"
  using assms
  by (cases lt)
     (simp_all add: server_lock_def server_update_invariant assignments_invariant
      split: option.splits)

lemma server_remove_lock_invariant:
  assumes "lock_invariant_db (DB s)"
  shows "lock_invariant_db (DB (snd (server_remove_lock e s path pw)))"
  using assms
  by (simp add: server_remove_lock_def server_update_invariant assignments_invariant
      split: option.splits)

lemma server_admin_create_invariant:
  assumes "lock_invariant_db (DB s)"
  shows "lock_invariant_db (DB (snd (server_admin_create e s path bc bl bt bp)))"
  using assms
  by (simp add: server_admin_create_def sql_insert_invariant split: option.splits)

lemma server_import_note_invariant:
  assumes "lock_invariant_db (fst st)"
  shows "lock_invariant_db (fst (server_import_note e st item))"
  using assms
  by (cases st)
     (simp add: server_import_note_def Let_def server_update_invariant sql_insert_invariant
        assignments_invariant
      split: option.splits)

lemma server_import_fold_invariant:
  "lock_invariant_db (fst st) \<Longrightarrow> lock_invariant_db (fst (foldl (server_import_note e) st ns))"
  by (induction ns arbitrary: st) (simp_all add: server_import_note_invariant)

lemma server_admin_import_invariant:
  assumes "lock_invariant_db (DB s)"
  shows "lock_invariant_db (DB (snd (server_admin_import e s body_notes)))"
proof (cases body_notes)
  case None
  with assms show ?thesis by (simp add: server_admin_import_def)
next
  case (Some ns)
  from assms have "lock_invariant_db (fst (foldl (server_import_note e) (DB s, CACHE s, 0) ns))"
    by (intro server_import_fold_invariant) simp
  with Some show ?thesis
    by (cases "foldl (server_import_note e) (DB s, CACHE s, 0) ns")
       (simp add: server_admin_import_def)
qed

text \<open>
  C5. Two admin paths break the invariant. On the unlocked note \<open>abc\<close>, which satisfies
  it, the server's admin update with \<^verbatim>\<open>{is_locked: true, lock_type: 'read'}\<close> and no
  password answers 200 and leaves the row with \<^verbatim>\<open>is_locked\<close> true, \<^verbatim>\<open>lock_type\<close> \<^verbatim>\<open>read\<close>
  and no password hash. The edge import of \<^verbatim>\<open>{path: 'abc', content: 'hello', is_locked: true}\<close>
  into an empty table leaves a row with \<^verbatim>\<open>is_locked\<close> true and neither lock type nor
  hash. The server's import of the same element leaves a row that satisfies the
  invariant.
\<close>

theorem admin_paths_break_lock_invariant:
  "lock_invariant (plain_note ''hello'' 0)
   \<and> status (fst (server_admin_put env0 (sys_of ''abc'' (plain_note ''hello'' 0)) ''abc''
         None (Some True) (Some ''read'') None)) = 200
   \<and> map_option (\<lambda>n. (is_locked n, lock_type n, password_hash n))
        (DB (snd (server_admin_put env0 (sys_of ''abc'' (plain_note ''hello'' 0)) ''abc''
           None (Some True) (Some ''read'') None)) ''abc'')
       = Some (True, Some ''read'', None)
   \<and> map_option lock_invariant
        (DB (snd (server_admin_put env0 (sys_of ''abc'' (plain_note ''hello'' 0)) ''abc''
           None (Some True) (Some ''read'') None)) ''abc'')
       = Some False
   \<and> map_option (\<lambda>n. (is_locked n, lock_type n, password_hash n))
        (DB (snd (worker_admin_import env0 \<lparr>DB = Map.empty, CACHE = empty_cache\<rparr>
           (Some [import0]))) ''abc'')
       = Some (True, None, None)
   \<and> map_option lock_invariant
        (DB (snd (worker_admin_import env0 \<lparr>DB = Map.empty, CACHE = empty_cache\<rparr>
           (Some [import0]))) ''abc'')
       = Some False
   \<and> map_option lock_invariant
        (DB (snd (server_admin_import env0 \<lparr>DB = Map.empty, CACHE = empty_cache\<rparr>
           (Some [import0]))) ''abc'')
       = Some True"
  by (simp add: run_defs lock_invariant_def)

section \<open>Cache invalidation on writes\<close>

text \<open>
  Every edge handler that mutates a note ends in the shared tail, which deletes the
  cache key after the statement; a 200 answer means the key is gone. The save handler
  reaches the tail from both of its branches.
\<close>

lemma worker_commit_invalidates:
  assumes "status (fst (worker_commit s path r)) = 200"
  shows "entries (CACHE (snd (worker_commit s path r))) (cache_key path) = None"
  using assms
  by (auto simp: worker_commit_def kv_delete_def json_defs split: sum.splits if_splits)

lemma worker_mutations_invalidate:
  "status (fst (worker_save_note e s path bc bp)) = 200 \<Longrightarrow>
     entries (CACHE (snd (worker_save_note e s path bc bp))) (cache_key path) = None"
  "status (fst (worker_lock e s path bp bt)) = 200 \<Longrightarrow>
     entries (CACHE (snd (worker_lock e s path bp bt))) (cache_key path) = None"
  "status (fst (worker_unlock e s path pw)) = 200 \<Longrightarrow>
     entries (CACHE (snd (worker_unlock e s path pw))) (cache_key path) = None"
  "status (fst (worker_remove_lock e s path pw)) = 200 \<Longrightarrow>
     entries (CACHE (snd (worker_remove_lock e s path pw))) (cache_key path) = None"
  "status (fst (worker_admin_delete s path)) = 200 \<Longrightarrow>
     entries (CACHE (snd (worker_admin_delete s path))) (cache_key path) = None"
  using worker_commit_invalidates
  by (auto simp: worker_save_note_def worker_lock_def worker_unlock_def worker_remove_lock_def
        worker_admin_delete_def worker_write_lock_def kv_delete_def json_defs Let_def
      split: option.splits if_splits sum.splits)

text \<open>
  On the server, with the cache available, the same holds for lock, unlock, remove-lock
  and delete, and for a save to a path that had a row.
\<close>

lemma server_mutations_invalidate:
  assumes "\<not> unavailable (CACHE s)"
  shows "DB s path \<noteq> None \<Longrightarrow> status (fst (server_save_note e s path bc bp)) = 200 \<Longrightarrow>
     entries (CACHE (snd (server_save_note e s path bc bp))) (cache_key path) = None"
  "status (fst (server_lock e s path lp lt)) = 200 \<Longrightarrow>
     entries (CACHE (snd (server_lock e s path lp lt))) (cache_key path) = None"
  "status (fst (server_unlock e s path pw)) = 200 \<Longrightarrow>
     entries (CACHE (snd (server_unlock e s path pw))) (cache_key path) = None"
  "status (fst (server_remove_lock e s path pw)) = 200 \<Longrightarrow>
     entries (CACHE (snd (server_remove_lock e s path pw))) (cache_key path) = None"
  "status (fst (server_admin_delete s path)) = 200 \<Longrightarrow>
     entries (CACHE (snd (server_admin_delete s path))) (cache_key path) = None"
  using assms
  by (auto simp: server_save_note_def server_lock_def server_unlock_def server_remove_lock_def
        server_admin_delete_def server_lock_check_def KVStore_delete_def kv_delete_def
        json_defs Let_def
      split: option.splits if_splits sum.splits)

text \<open>
  C6. The server's save handler deletes the cache key only in the branch for an existing
  row. In a state with no row for \<open>abc\<close> and a cache entry under \<^verbatim>\<open>note:abc\<close> with content
  \<open>old\<close>, a save of \<open>new\<close> answers 200 and inserts the row, the entry is still there,
  and the next GET answers with the content \<open>old\<close> from it. The edge handler on the same
  input answers 200, the entry is gone, and the next GET answers with \<open>new\<close>.
\<close>

theorem server_save_create_keeps_cache_entry:
  "status (fst (server_save_note env0 stale_sys ''abc'' (Some ''new'') None)) = 200
   \<and> map_option content
        (DB (snd (server_save_note env0 stale_sys ''abc'' (Some ''new'') None)) ''abc'')
       = Some ''new''
   \<and> entries (CACHE (snd (server_save_note env0 stale_sys ''abc'' (Some ''new'') None)))
        (cache_key ''abc'')
       = Some (NoteResponse (plain_note ''old'' 5), 900)
   \<and> map_of (members (body (fst (server_get_note env0
         (snd (server_save_note env0 stale_sys ''abc'' (Some ''new'') None)) ''abc''))))
        ''content''
       = Some (JStr ''old'')
   \<and> status (fst (worker_save_note env0 stale_sys ''abc'' (Some ''new'') None)) = 200
   \<and> entries (CACHE (snd (worker_save_note env0 stale_sys ''abc'' (Some ''new'') None)))
        (cache_key ''abc'')
       = None
   \<and> map_of (members (body (fst (worker_get_note env0
         (snd (worker_save_note env0 stale_sys ''abc'' (Some ''new'') None)) ''abc''))))
        ''content''
       = Some (JStr ''new'')"
  by (simp add: run_defs)

section \<open>The update timestamp\<close>

text \<open>
  On the server the trigger stamps every updated row: an UPDATE that passes the CHECK
  leaves the row as assigned, with \<^verbatim>\<open>updated_at\<close> the current time, and no other row
  changes. So a lock keeps every column it does not name, apart from the timestamp.
\<close>

lemma server_update_sets_updated_at:
  assumes "db path = Some n" and "server_check (lock_type (f n))"
  shows "run db (server_update ts db path f) path = Some ((f n)\<lparr>updated_at := ts\<rparr>)"
    and "p \<noteq> path \<Longrightarrow> run db (server_update ts db path f) p = db p"
  using assms
  by (auto simp: run_def server_update_def sql_update_def update_notes_timestamp_def
        set_updated_at_def)

lemma server_lock_updated_at:
  assumes "DB s path = Some n" and "truthy password" and "t = ''read'' \<or> t = ''write''"
  shows "DB (snd (server_lock e s path password (Some t))) path
           = Some (n\<lparr>is_locked := True, lock_type := Some t,
                     password_hash := Some (hashPassword e (or_else password [])),
                     updated_at := now e\<rparr>)"
  using assms
    server_update_sets_updated_at(1) [of "DB s" path n
      "set_lock (Some t) (Some (hashPassword e (or_else password [])))" "now e"]
  by (cases password) (auto simp: server_lock_def set_lock_def)

text \<open>
  The edge lock changes the three lock columns of the row and nothing else.
\<close>

lemma worker_lock_frame:
  assumes "\<not> unavailable (CACHE s)" and "DB s path = Some n" and "truthy password"
    and "t = ''read'' \<or> t = ''write''"
  shows "DB (snd (worker_lock e s path password (Some t))) path
           = Some (n\<lparr>is_locked := True, lock_type := Some t,
                     password_hash := Some (hashPassword e (or_else password []))\<rparr>)"
  using assms
  by (cases password)
     (auto simp: worker_lock_def worker_commit_def sql_update_def worker_check_def kv_delete_def
        set_lock_def)

text \<open>
  C8. The edge database has no such trigger, and the lock statements of the edge
  handlers do not name \<^verbatim>\<open>updated_at\<close>. At time \<open>2025-06-01 12:00:00\<close>, a lock of the note
  \<open>abc\<close> last updated at \<open>2025-01-01 00:00:00\<close> answers 200 and locks the row, whose
  \<^verbatim>\<open>updated_at\<close> is still \<open>2025-01-01 00:00:00\<close>; a remove-lock does the same. The server's
  lock on the same input leaves \<^verbatim>\<open>updated_at\<close> at the current time.
\<close>

theorem worker_lock_keeps_updated_at:
  "status (fst (worker_lock env0 (sys_of ''abc'' (plain_note ''hello'' 0)) ''abc''
       (Some ''p1'') (Some ''read''))) = 200
   \<and> map_option (\<lambda>n. (is_locked n, updated_at n))
        (DB (snd (worker_lock env0 (sys_of ''abc'' (plain_note ''hello'' 0)) ''abc''
           (Some ''p1'') (Some ''read''))) ''abc'')
       = Some (True, ''2025-01-01 00:00:00'')
   \<and> status (fst (worker_remove_lock env0 (sys_of ''abc'' (locked_note ''hello'' ''read'' 0))
        ''abc'' ''p1'')) = 200
   \<and> map_option (\<lambda>n. (is_locked n, updated_at n))
        (DB (snd (worker_remove_lock env0 (sys_of ''abc'' (locked_note ''hello'' ''read'' 0))
           ''abc'' ''p1'')) ''abc'')
       = Some (False, ''2025-01-01 00:00:00'')
   \<and> map_option (\<lambda>n. (is_locked n, updated_at n))
        (DB (snd (server_lock env0 (sys_of ''abc'' (plain_note ''hello'' 0)) ''abc''
           (Some ''p1'') (Some ''read''))) ''abc'')
       = Some (True, now env0)
   \<and> now env0 = ''2025-06-01 12:00:00''"
  by (simp add: run_defs)

section \<open>Cache failures\<close>

text \<open>
  The server's cache adapter catches every error of its backend. With the backend
  unavailable, a read answers as it does with an empty cache, and a save answers the same
  whatever the cache is.
\<close>

lemma server_get_cache_down:
  assumes "unavailable (CACHE s)"
  shows "fst (server_get_note e s path)
           = fst (server_get_note e (s\<lparr>CACHE := empty_cache\<rparr>) path)"
    and "DB (snd (server_get_note e s path))
           = DB (snd (server_get_note e (s\<lparr>CACHE := empty_cache\<rparr>) path))"
  using assms
  by (auto simp: server_get_note_def KVStore_get_def kv_get_def empty_cache_def Let_def
      split: option.splits)

lemma server_save_any_cache:
  "fst (server_save_note e (s\<lparr>CACHE := c\<rparr>) path bc bp) = fst (server_save_note e s path bc bp)"
  "DB (snd (server_save_note e (s\<lparr>CACHE := c\<rparr>) path bc bp))
     = DB (snd (server_save_note e s path bc bp))"
  by (auto simp: server_save_note_def Let_def split: option.splits)

text \<open>
  With the backend unavailable, every edge read of a valid path answers 500.
\<close>

lemma worker_get_cache_down:
  assumes "validatePath path (PATH_MIN_LENGTH e) (PATH_MAX_LENGTH e)" and "unavailable (CACHE s)"
  shows "worker_get_note e s path = (database_error, s)"
  using assms by (simp add: worker_get_note_def kv_get_def)

text \<open>
  C9. The edge handlers await the cache inside their \<^verbatim>\<open>try\<close> block. With the cache
  backend unavailable and an unlocked note \<open>abc\<close> in the table, GET answers 500
  \<^verbatim>\<open>Database error\<close>, and a save answers 500 although its UPDATE has changed the content
  to \<open>new\<close>. The server on the same input answers 200 with the note, and 200 to the save.
\<close>

theorem worker_surfaces_cache_failure:
  "fst (worker_get_note env0 down_sys ''abc'') = c_json (error_json ''Database error'') 500
   \<and> fst (worker_save_note env0 down_sys ''abc'' (Some ''new'') None)
       = c_json (error_json ''Database error'') 500
   \<and> map_option content
        (DB (snd (worker_save_note env0 down_sys ''abc'' (Some ''new'') None)) ''abc'')
       = Some ''new''
   \<and> fst (server_get_note env0 down_sys ''abc'')
       = c_json (NoteResponse (plain_note ''hello'' 0)) 200
   \<and> fst (server_save_note env0 down_sys ''abc'' (Some ''new'') None)
       = c_json success_json 200"
  by (simp add: run_defs)

section \<open>Physical paths of the blob store\<close>

text \<open>
  C10. The sanitizer keeps the dot and the slash, so a \<^verbatim>\<open>..\<close> segment of a key reaches
  \<^verbatim>\<open>path.join\<close>. With base directory \<^verbatim>\<open>/srv/storage\<close>, the key \<^verbatim>\<open>../../etc/passwd\<close> maps to
  \<^verbatim>\<open>/etc/passwd\<close>, which is not inside the base directory. The key
  \<^verbatim>\<open>exports/export-1.json\<close> maps to a path inside it.
\<close>

theorem getFilePath_escapes_base:
  "getFilePath ''/srv/storage'' ''../../etc/passwd'' = ''/etc/passwd''
   \<and> inside ''/srv/storage'' (getFilePath ''/srv/storage'' ''../../etc/passwd'') = False
   \<and> getFilePath ''/srv/storage'' ''exports/export-1.json''
       = ''/srv/storage/exports/export-1.json''
   \<and> inside ''/srv/storage'' (getFilePath ''/srv/storage'' ''exports/export-1.json'')"
  by (simp add: getFilePath_def path_join_def safeKey_def safe_char_def path_normalize_def
        inside_def)

end
